theory Spec2Isabelle
  imports Complex_Main "HOL-Library.AList" "HOL-Library.Char_ord" "HOL-Library.List_Lexorder"
    "HOL-Library.Product_Lexorder"
begin

section \<open>The collector: rate limiter (2\_collect\_sincera\_data.py)\<close>

text \<open>
  Time is the reading of the local wall clock in whole seconds (the source reads
  \<^verbatim>\<open>time.time()\<close> and \<^verbatim>\<open>datetime.now()\<close>, a float and a datetime; the model reads
  one exact integer clock for both). The calendar day of a reading is its quotient by
  86400. Python statements take no time in the model; only \<^verbatim>\<open>time.sleep\<close> and the
  caller move the clock.
\<close>

definition REQUESTS_PER_MINUTE :: nat where
  "REQUESTS_PER_MINUTE = 45"

definition REQUESTS_PER_DAY :: nat where
  "REQUESTS_PER_DAY = 5000"

text \<open>The call sites of \<^verbatim>\<open>time.sleep\<close>, recorded with every sleep.\<close>

datatype sleep_site = DailyLimit | MinuteLimit | RetryAfter | Backoff

text \<open>
  Python values as they occur in JSON bodies and in the result dicts; a dict keeps its
  keys in insertion order. \<open>PTime t\<close> is the ISO text of the clock reading \<open>t\<close>.
\<close>

datatype pyval =
    PNone
  | PBool bool
  | PNum rat
  | PStr string
  | PTime int
  | PList "pyval list"
  | PDict "(string \<times> pyval) list"

type_synonym pydict = "(string \<times> pyval) list"

text \<open>
  The process state the collector's functions touch: the clock, the three module globals
  of the rate limiter (\<^verbatim>\<open>_request_times\<close>, oldest first; \<^verbatim>\<open>_requests_today\<close>;
  \<^verbatim>\<open>_current_day\<close>), the number of HTTP requests issued so far, the sleeps taken, and
  the checkpoint batches written (batch number and rows, in the order of the writes).
\<close>

record world =
  clock :: int
  request_times :: "int list"
  requests_today :: nat
  current_day :: int
  requests_sent :: nat
  sleeps :: "(sleep_site \<times> int) list"
  saved :: "(nat \<times> pydict list) list"

definition date_of :: "int \<Rightarrow> int" where
  "date_of t = t div 86400"

text \<open>\<^verbatim>\<open>time.sleep(d)\<close> for a duration that is not negative: the clock moves by \<open>d\<close>.\<close>

definition sleep :: "sleep_site \<Rightarrow> int \<Rightarrow> world \<Rightarrow> world" where
  "sleep site d w = w\<lparr>clock := clock w + d, sleeps := sleeps w @ [(site, d)]\<rparr>"

text \<open>\<^verbatim>\<open>while _request_times and now - _request_times[0] >= 60: _request_times.popleft()\<close>\<close>

fun evict :: "int \<Rightarrow> int list \<Rightarrow> int list" where
  "evict now [] = []"
| "evict now (t # ts) = (if now - t \<ge> 60 then evict now ts else t # ts)"

text \<open>
  \<^verbatim>\<open>respect_rate_limits\<close>, one definition for each of its commented blocks. As no time
  passes between two statements, the locals \<^verbatim>\<open>now\<close> and \<^verbatim>\<open>today\<close> always hold the
  current reading of the clock and its day; the definitions read the clock instead.
\<close>

definition reset_on_new_day :: "world \<Rightarrow> world" where
  "reset_on_new_day w =
    (if date_of (clock w) \<noteq> current_day w
     then w\<lparr>current_day := date_of (clock w), requests_today := 0, request_times := []\<rparr>
     else w)"

definition wait_for_tomorrow :: "world \<Rightarrow> world" where
  "wait_for_tomorrow w =
    (if requests_today w \<ge> REQUESTS_PER_DAY
     then (let tomorrow = (date_of (clock w) + 1) * 86400;
               wait_seconds = tomorrow - clock w;
               ws = sleep DailyLimit (max 0 wait_seconds) w
           in ws\<lparr>current_day := date_of (clock ws), requests_today := 0, request_times := []\<rparr>)
     else w)"

definition evict_old :: "world \<Rightarrow> world" where
  "evict_old w = w\<lparr>request_times := evict (clock w) (request_times w)\<rparr>"

definition wait_for_minute_window :: "world \<Rightarrow> world" where
  "wait_for_minute_window w =
    (if length (request_times w) \<ge> REQUESTS_PER_MINUTE
     then (let wait_time = 60 - (clock w - hd (request_times w))
           in evict_old (if wait_time > 0 then sleep MinuteLimit wait_time w else w))
     else w)"

definition record_request :: "world \<Rightarrow> world" where
  "record_request w =
    w\<lparr>request_times := request_times w @ [clock w], requests_today := requests_today w + 1\<rparr>"

definition respect_rate_limits :: "world \<Rightarrow> world" where
  "respect_rate_limits w =
    record_request (wait_for_minute_window (evict_old (wait_for_tomorrow (reset_on_new_day w))))"

text \<open>
  A caller that waits \<open>gap\<close> seconds and then acquires; a sequence of such calls returns
  the timestamp each acquisition recorded (the entry appended to \<^verbatim>\<open>_request_times\<close>).
\<close>

fun acquire_each :: "int list \<Rightarrow> world \<Rightarrow> int list" where
  "acquire_each [] w = []"
| "acquire_each (gap # gaps) w =
    (let w' = respect_rate_limits (w\<lparr>clock := clock w + gap\<rparr>)
     in last (request_times w') # acquire_each gaps w')"

text \<open>The acquisitions whose timestamp lies in the 60 seconds up to \<open>t\<close>.\<close>

definition in_trailing_window :: "int \<Rightarrow> int list \<Rightarrow> nat" where
  "in_trailing_window t stamps = length (filter (\<lambda>s. t - 60 < s \<and> s \<le> t) stamps)"

text \<open>
  The state of a process whose module was imported at time \<open>t\<close>, and one started at
  23:59:14 of day 0.
\<close>

definition fresh_world :: "int \<Rightarrow> world" where
  "fresh_world t =
    \<lparr>clock = t, request_times = [], requests_today = 0, current_day = date_of t,
     requests_sent = 0, sleeps = [], saved = []\<rparr>"

definition before_midnight :: world where
  "before_midnight = fresh_world 86354"

section \<open>Strings\<close>

text \<open>
  A character is a code point below 256. \<^verbatim>\<open>str.lower\<close> and the whitespace of
  \<^verbatim>\<open>str.strip\<close> and \<^verbatim>\<open>int\<close> are Python's on that range.
\<close>

definition lower_char :: "char \<Rightarrow> char" where
  "lower_char c =
    (let n = (of_char c :: nat)
     in if (65 \<le> n \<and> n \<le> 90) \<or> (192 \<le> n \<and> n \<le> 222 \<and> n \<noteq> 215)
        then char_of (n + 32) else c)"

definition lower :: "string \<Rightarrow> string" where
  "lower s = map lower_char s"

definition is_space :: "char \<Rightarrow> bool" where
  "is_space c =
    (let n = (of_char c :: nat)
     in (9 \<le> n \<and> n \<le> 13) \<or> (28 \<le> n \<and> n \<le> 32) \<or> n = 133 \<or> n = 160)"

definition strip :: "string \<Rightarrow> string" where
  "strip s = rev (dropWhile is_space (rev (dropWhile is_space s)))"

definition is_digit :: "char \<Rightarrow> bool" where
  "is_digit c = (let n = (of_char c :: nat) in 48 \<le> n \<and> n \<le> 57)"

fun digits_value :: "int \<Rightarrow> string \<Rightarrow> int" where
  "digits_value acc [] = acc"
| "digits_value acc (c # cs) =
    (if c = CHR ''_'' then digits_value acc cs
     else digits_value (acc * 10 + int (of_char c - 48)) cs)"

fun no_double_underscore :: "string \<Rightarrow> bool" where
  "no_double_underscore (a # b # cs) =
    ((a \<noteq> CHR ''_'' \<or> b \<noteq> CHR ''_'') \<and> no_double_underscore (b # cs))"
| "no_double_underscore cs = True"

text \<open>
  \<^verbatim>\<open>int(s)\<close> on a string: surrounding whitespace, an optional sign, decimal digits with
  single underscores between them; \<open>None\<close> is the \<^verbatim>\<open>ValueError\<close>.
\<close>

definition digit_string :: "string \<Rightarrow> bool" where
  "digit_string cs =
    (cs \<noteq> [] \<and> is_digit (hd cs) \<and> is_digit (last cs)
     \<and> list_all (\<lambda>c. is_digit c \<or> c = CHR ''_'') cs \<and> no_double_underscore cs)"

definition py_int :: "string \<Rightarrow> int option" where
  "py_int s =
    (case strip s of
       [] \<Rightarrow> None
     | c # cs \<Rightarrow>
         if c = CHR ''-'' then (if digit_string cs then Some (- digits_value 0 cs) else None)
         else if c = CHR ''+'' then (if digit_string cs then Some (digits_value 0 cs) else None)
         else if digit_string (c # cs) then Some (digits_value 0 (c # cs)) else None)"

text \<open>\<^verbatim>\<open>str(n)\<close> for a status code.\<close>

fun dec :: "nat \<Rightarrow> string" where
  "dec n = (if n < 10 then [char_of (48 + n)] else dec (n div 10) @ [char_of (48 + n mod 10)])"

section \<open>The collector: fetching one domain\<close>

text \<open>
  A response as the fetch reads it: the status, the headers, what \<^verbatim>\<open>response.json()\<close>
  makes of the body (a value, or a decoding error with its message) and
  \<^verbatim>\<open>response.text\<close>.
\<close>

datatype body = Json pyval | NotJson string

record response =
  status_code :: nat
  headers :: "(string \<times> string) list"
  body :: body
  text_of :: string

text \<open>
  What one \<^verbatim>\<open>requests.get\<close> does: it returns a response, or raises a
  \<^verbatim>\<open>requests.exceptions.RequestException\<close> with a message. The server is a function of
  the number of requests issued before and of the domain asked for.
\<close>

datatype http_event = Response response | RequestException string

type_synonym server = "nat \<Rightarrow> string \<Rightarrow> http_event"

text \<open>The exceptions that leave the functions of the collector and the sampler.\<close>

datatype exn = ValueError | AttributeError | ZeroDivisionError

text \<open>\<^verbatim>\<open>response.headers.get(name, default)\<close>: header names compare case-insensitively.\<close>

definition header_get :: "(string \<times> string) list \<Rightarrow> string \<Rightarrow> string \<Rightarrow> string" where
  "header_get hs name dflt =
    (case map_of (map (\<lambda>(k, v). (lower k, v)) hs) (lower name) of
       None \<Rightarrow> dflt
     | Some v \<Rightarrow> v)"

text \<open>\<^verbatim>\<open>data.get(key)\<close> on a dict.\<close>

definition dict_get :: "pydict \<Rightarrow> string \<Rightarrow> pyval" where
  "dict_get d k = (case map_of d k of None \<Rightarrow> PNone | Some v \<Rightarrow> v)"

definition METRIC_FIELDS :: "string list" where
  "METRIC_FIELDS =
    [''publisher_id'', ''name'', ''visit_enabled'', ''status'', ''primary_supply_type'',
     ''pub_description'', ''categories'', ''slug'',
     ''avg_ads_to_content_ratio'', ''avg_ads_in_view'', ''avg_ad_refresh'',
     ''avg_page_weight'', ''avg_cpu'',
     ''total_supply_paths'', ''reseller_count'', ''total_unique_gpids'',
     ''id_absorption_rate'', ''owner_domain'',
     ''updated_at'']"

text \<open>
  The two shapes of dict the fetch returns. \<^verbatim>\<open>datetime.now().isoformat()\<close> is the
  value \<open>PTime\<close> of the clock reading.
\<close>

definition metrics_result :: "string \<Rightarrow> pydict \<Rightarrow> int \<Rightarrow> pydict" where
  "metrics_result domain data now =
    (''domain'', PStr domain) # map (\<lambda>k. (k, dict_get data k)) METRIC_FIELDS @
    [(''api_success'', PBool True), (''api_error'', PNone), (''fetched_at'', PTime now)]"

definition failure_result :: "string \<Rightarrow> string \<Rightarrow> int \<Rightarrow> pydict" where
  "failure_result domain err now =
    [(''domain'', PStr domain), (''api_success'', PBool False), (''api_error'', PStr err),
     (''fetched_at'', PTime now)]"

text \<open>One iteration of the retry loop returns a dict, raises, or goes on to the next.\<close>

datatype step = Done pydict | Raised exn | Retry

text \<open>The \<^verbatim>\<open>except requests.exceptions.RequestException\<close> branch.\<close>

definition on_request_exception :: "string \<Rightarrow> string \<Rightarrow> int \<Rightarrow> nat \<Rightarrow> world \<Rightarrow> step \<times> world" where
  "on_request_exception domain msg max_retries attempt w =
    (if int attempt = max_retries - 1
     then (Done (failure_result domain (''Request exception: '' @ msg) (clock w)), w)
     else (Retry, sleep Backoff (2 ^ attempt) w))"

text \<open>
  The body of the loop. \<open>json_error_caught\<close> says whether the exception that
  \<^verbatim>\<open>response.json()\<close> raises on a body that is not JSON is a \<^verbatim>\<open>RequestException\<close>
  (it is from requests 2.27 on, and a plain \<^verbatim>\<open>ValueError\<close> before); the library is not
  part of the repository. \<^verbatim>\<open>time.sleep\<close> raises \<^verbatim>\<open>ValueError\<close> on a negative duration.
\<close>

definition attempt_once ::
  "bool \<Rightarrow> server \<Rightarrow> string \<Rightarrow> int \<Rightarrow> nat \<Rightarrow> world \<Rightarrow> step \<times> world" where
  "attempt_once json_error_caught srv domain max_retries attempt w =
    (let w1 = respect_rate_limits w;
         w2 = w1\<lparr>requests_sent := Suc (requests_sent w1)\<rparr>
     in case srv (requests_sent w1) domain of
          RequestException msg \<Rightarrow> on_request_exception domain msg max_retries attempt w2
        | Response r \<Rightarrow>
            if status_code r = 200 then
              (case body r of
                 NotJson msg \<Rightarrow>
                   if json_error_caught
                   then on_request_exception domain msg max_retries attempt w2
                   else (Raised ValueError, w2)
               | Json (PDict data) \<Rightarrow> (Done (metrics_result domain data (clock w2)), w2)
               | Json _ \<Rightarrow> (Raised AttributeError, w2))
            else if status_code r = 404 then
              (Done (failure_result domain ''Domain not found (404)'' (clock w2)), w2)
            else if status_code r = 429 then
              (case py_int (header_get (headers r) ''Retry-After'' ''60'') of
                 None \<Rightarrow> (Raised ValueError, w2)
               | Some wait_time \<Rightarrow>
                   if wait_time < 0 then (Raised ValueError, w2)
                   else (Retry, sleep RetryAfter wait_time w2))
            else
              (Done (failure_result domain
                 (''HTTP '' @ dec (status_code r) @ '': '' @ take 200 (text_of r)) (clock w2)), w2))"

text \<open>
  \<^verbatim>\<open>for attempt in range(max_retries)\<close>, and the return after the loop; \<open>jc\<close> is
  \<open>json_error_caught\<close>. An exception other than a \<^verbatim>\<open>RequestException\<close> leaves the
  function.
\<close>

function fetch_attempts ::
  "bool \<Rightarrow> server \<Rightarrow> string \<Rightarrow> int \<Rightarrow> nat \<Rightarrow> world \<Rightarrow> (exn + pydict) \<times> world" where
  "fetch_attempts jc srv domain max_retries attempt w =
    (if int attempt < max_retries
     then (case attempt_once jc srv domain max_retries attempt w of
             (Done result, w') \<Rightarrow> (Inr result, w')
           | (Raised e, w') \<Rightarrow> (Inl e, w')
           | (Retry, w') \<Rightarrow> fetch_attempts jc srv domain max_retries (Suc attempt) w')
     else (Inr (failure_result domain ''Max retries exceeded'' (clock w)), w))"
  by pat_completeness auto
termination
  by (relation "measure (\<lambda>(jc, srv, domain, max_retries, attempt, w). nat (max_retries - int attempt))")
    auto

definition fetch_domain_metrics ::
  "bool \<Rightarrow> server \<Rightarrow> string \<Rightarrow> int \<Rightarrow> world \<Rightarrow> (exn + pydict) \<times> world" where
  "fetch_domain_metrics jc srv domain max_retries w = fetch_attempts jc srv domain max_retries 0 w"

section \<open>The collector: the collection loop\<close>

text \<open>A row of the sample: its \<^verbatim>\<open>domain\<close> and \<^verbatim>\<open>network\<close> columns (a null network is \<open>None\<close>).\<close>

record row =
  row_domain :: string
  row_network :: "string option"

definition network_value :: "row \<Rightarrow> pyval" where
  "network_value r = (case row_network r of None \<Rightarrow> PNone | Some n \<Rightarrow> PStr n)"

text \<open>The truth value Python's \<^verbatim>\<open>if\<close> gives a value.\<close>

fun truthy :: "pyval \<Rightarrow> bool" where
  "truthy PNone = False"
| "truthy (PBool b) = b"
| "truthy (PNum x) = (x \<noteq> 0)"
| "truthy (PStr s) = (s \<noteq> [])"
| "truthy (PTime t) = True"
| "truthy (PList xs) = (xs \<noteq> [])"
| "truthy (PDict kvs) = (kvs \<noteq> [])"

text \<open>\<^verbatim>\<open>xs[-k:]\<close> for \<open>k > 0\<close>: the last \<open>k\<close> elements, all of them when there are fewer.\<close>

definition py_last :: "nat \<Rightarrow> 'a list \<Rightarrow> 'a list" where
  "py_last k xs = drop (length xs - k) xs"

text \<open>
  \<^verbatim>\<open>save_incremental_progress\<close> writes the rows to the file named after the batch
  number (\<^verbatim>\<open>pickles/sincera_data_batch_%04d.pkl\<close>); the write is recorded under that
  number.
\<close>

definition save_incremental_progress :: "pydict list \<Rightarrow> nat \<Rightarrow> world \<Rightarrow> world" where
  "save_incremental_progress results batch_num w = w\<lparr>saved := saved w @ [(batch_num, results)]\<rparr>"

text \<open>The locals the loop updates.\<close>

record tally =
  all_results :: "pydict list"
  successful_requests :: nat
  failed_requests :: nat

text \<open>
  The loop over the rows, \<open>i\<close> counting from 1. An exception of the fetch leaves the
  loop, as nothing in \<^verbatim>\<open>collect_all_data\<close> catches it. The batch size is a natural
  number; \<^verbatim>\<open>i % batch_size\<close> raises \<^verbatim>\<open>ZeroDivisionError\<close> when it is 0. Every dict the
  fetch returns has the key \<^verbatim>\<open>api_success\<close>, so \<^verbatim>\<open>result['api_success']\<close> is read with
  \<open>dict_get\<close>. The progress lines divide by the elapsed time, which is positive once a
  request has been made; they are not modelled.
\<close>

fun collect_rows ::
  "bool \<Rightarrow> server \<Rightarrow> nat \<Rightarrow> nat \<Rightarrow> row list \<Rightarrow> tally \<Rightarrow> world \<Rightarrow> (exn + tally) \<times> world" where
  "collect_rows jc srv batch_size i [] t w = (Inr t, w)"
| "collect_rows jc srv batch_size i (r # rows) t w =
    (case fetch_domain_metrics jc srv (row_domain r) 3 w of
       (Inl e, w1) \<Rightarrow> (Inl e, w1)
     | (Inr fetched, w1) \<Rightarrow>
         (let result = AList.update ''network'' (network_value r) fetched;
              results = all_results t @ [result];
              t1 = (if truthy (dict_get result ''api_success'')
                    then t\<lparr>all_results := results,
                           successful_requests := successful_requests t + 1\<rparr>
                    else t\<lparr>all_results := results,
                           failed_requests := failed_requests t + 1\<rparr>)
          in if batch_size = 0 then (Inl ZeroDivisionError, w1)
             else collect_rows jc srv batch_size (Suc i) rows t1
                    (if i mod batch_size = 0
                     then save_incremental_progress (py_last batch_size results)
                            (i div batch_size) w1
                     else w1)))"

text \<open>
  \<^verbatim>\<open>collect_all_data\<close>: the loop, the save of the remaining rows, and the final summary,
  whose percentages divide by \<^verbatim>\<open>len(all_results)\<close>.
\<close>

definition collect_all_data ::
  "bool \<Rightarrow> server \<Rightarrow> row list \<Rightarrow> nat \<Rightarrow> bool \<Rightarrow> world \<Rightarrow> (exn + pydict list) \<times> world" where
  "collect_all_data jc srv sample_df batch_size0 is_testing w =
    (let batch_size = (if is_testing then min 10 batch_size0 else batch_size0)
     in case collect_rows jc srv batch_size 1 sample_df
               \<lparr>all_results = [], successful_requests = 0, failed_requests = 0\<rparr> w of
          (Inl e, w1) \<Rightarrow> (Inl e, w1)
        | (Inr t, w1) \<Rightarrow>
            if batch_size = 0 then (Inl ZeroDivisionError, w1)
            else (let n = length (all_results t);
                      w2 = (if n mod batch_size \<noteq> 0
                            then save_incremental_progress (py_last (n mod batch_size) (all_results t))
                                   (n div batch_size + 1) w1
                            else w1)
                  in if n = 0 then (Inl ZeroDivisionError, w2)
                     else (Inr (all_results t), w2)))"

section \<open>The sampler (1\_create\_domain\_sample.py)\<close>

text \<open>
  \<^verbatim>\<open>.str.replace(r'^https?://', '', regex=True)\<close>, \<^verbatim>\<open>.str.replace(r'^www\.', '', regex=True)\<close>
  and \<^verbatim>\<open>.str.split('/').str[0]\<close>.
\<close>

definition remove_protocol :: "string \<Rightarrow> string" where
  "remove_protocol s =
    (if take 7 s = ''http://'' then drop 7 s
     else if take 8 s = ''https://'' then drop 8 s
     else s)"

definition remove_www :: "string \<Rightarrow> string" where
  "remove_www s = (if take 4 s = ''www.'' then drop 4 s else s)"

definition before_slash :: "string \<Rightarrow> string" where
  "before_slash s = takeWhile (\<lambda>c. c \<noteq> CHR ''/'') s"

text \<open>
  The cleaning both frames go through, on rows of a nullable domain and a network:
  lower-case and strip, drop the nulls, drop the empty strings, then remove the protocol,
  the \<^verbatim>\<open>www.\<close> and the path.
\<close>

definition lower_strip :: "string option \<times> string option \<Rightarrow> string option \<times> string option" where
  "lower_strip = (\<lambda>(d, n). (map_option (\<lambda>s. strip (lower s)) d, n))"

fun dropna :: "(string option \<times> string option) list \<Rightarrow> (string \<times> string option) list" where
  "dropna [] = []"
| "dropna ((None, n) # rows) = dropna rows"
| "dropna ((Some d, n) # rows) = (d, n) # dropna rows"

definition normalize_rows :: "(string option \<times> string option) list \<Rightarrow> row list" where
  "normalize_rows raw =
    map (\<lambda>(d, n). \<lparr>row_domain = before_slash (remove_www (remove_protocol d)),
                   row_network = n\<rparr>)
      (filter (\<lambda>(d, n). d \<noteq> [])
        (dropna (map lower_strip raw)))"

text \<open>\<^verbatim>\<open>drop_duplicates(subset=['domain'])\<close> keeps the first row of every domain.\<close>

fun drop_duplicates :: "string list \<Rightarrow> row list \<Rightarrow> row list" where
  "drop_duplicates seen [] = []"
| "drop_duplicates seen (r # rs) =
    (if row_domain r \<in> set seen then drop_duplicates seen rs
     else r # drop_duplicates (row_domain r # seen) rs)"

text \<open>\<^verbatim>\<open>sort_values(['network', 'domain'])\<close>, null networks last.\<close>

definition sort_values :: "row list \<Rightarrow> row list" where
  "sort_values rows =
    sort_key (\<lambda>r. (row_network r = None, case_option [] id (row_network r), row_domain r)) rows"

definition create_clean_domain_dataset ::
  "string option list \<Rightarrow> (string option \<times> string option) list \<Rightarrow> row list" where
  "create_clean_domain_dataset raptive_urls competitor_rows =
    (let raptive_df = normalize_rows (map (\<lambda>u. (u, Some ''Raptive'')) raptive_urls);
         competitor_df = normalize_rows competitor_rows;
         raptive_domains_set = set (map row_domain raptive_df);
         competitor_df_clean = filter (\<lambda>r. row_domain r \<notin> raptive_domains_set) competitor_df;
         final_df = raptive_df @ competitor_df_clean
     in sort_values (drop_duplicates [] final_df))"

text \<open>\<^verbatim>\<open>Series.unique()\<close>: the values in the order of their first occurrence.\<close>

definition unique :: "'a list \<Rightarrow> 'a list" where
  "unique xs = rev (remdups (rev xs))"

text \<open>The files the sampler can touch: the directories and the pickled frames.\<close>

record filesystem =
  dirs :: "string set"
  files :: "string \<rightharpoonup> row list"

text \<open>
  \<^verbatim>\<open>create_sample_dataset\<close>. \<open>pick\<close> stands for pandas'
  \<^verbatim>\<open>DataFrame.sample(n=sample_size, random_state=42)\<close>, which is not part of the
  repository. A comparison with a null network selects no row. \<^verbatim>\<open>pd.concat\<close> of an
  empty list raises \<^verbatim>\<open>ValueError\<close>.
\<close>

definition network_sample :: "(row list \<Rightarrow> nat \<Rightarrow> row list) \<Rightarrow> row list \<Rightarrow> nat \<Rightarrow> string option \<Rightarrow> row list" where
  "network_sample pick clean_df sample_size network =
    (let network_df = filter (\<lambda>r. network \<noteq> None \<and> row_network r = network) clean_df
     in if network = Some ''Aditude'' then network_df
        else if length network_df \<le> sample_size then network_df
        else pick network_df sample_size)"

definition create_sample_dataset ::
  "(row list \<Rightarrow> nat \<Rightarrow> row list) \<Rightarrow> row list \<Rightarrow> nat \<Rightarrow> filesystem \<Rightarrow> exn + row list \<times> filesystem" where
  "create_sample_dataset pick clean_df sample_size fs =
    (let sampled_dfs = map (network_sample pick clean_df sample_size)
                         (unique (map row_network clean_df))
     in if sampled_dfs = [] then Inl ValueError
        else (let final_sample = concat sampled_dfs
              in Inr (final_sample,
                      fs\<lparr>dirs := insert ''pickles'' (dirs fs),
                         files := (files fs)(''pickles/sample_domains.pkl'' \<mapsto> final_sample)\<rparr>)))"

section \<open>Observations and concrete runs\<close>

text \<open>The durations slept for a \<^verbatim>\<open>Retry-After\<close>, in order.\<close>

definition retry_after_sleeps :: "world \<Rightarrow> int list" where
  "retry_after_sleeps w = map snd (filter (\<lambda>p. fst p = RetryAfter) (sleeps w))"

text \<open>A key of the dict a fetch returned; \<open>None\<close> when the fetch raised or the key is absent.\<close>

definition returned_field :: "string \<Rightarrow> (exn + pydict) \<times> world \<Rightarrow> pyval option" where
  "returned_field k out = (case fst out of Inl e \<Rightarrow> None | Inr d \<Rightarrow> map_of d k)"

definition has_header :: "(string \<times> string) list \<Rightarrow> string \<Rightarrow> bool" where
  "has_header hs name = (map_of (map (\<lambda>(k, v). (lower k, v)) hs) (lower name) \<noteq> None)"

text \<open>
  The shape the collection loop reads: the four keys, \<^verbatim>\<open>api_success\<close> a boolean that is
  true exactly when \<^verbatim>\<open>api_error\<close> is \<^verbatim>\<open>None\<close>.
\<close>

definition result_shape :: "string \<Rightarrow> pydict \<Rightarrow> bool" where
  "result_shape domain d =
    (map_of d ''domain'' = Some (PStr domain)
     \<and> map_of d ''api_success'' \<in> {Some (PBool True), Some (PBool False)}
     \<and> map_of d ''api_error'' \<noteq> None
     \<and> map_of d ''fetched_at'' \<noteq> None
     \<and> ((map_of d ''api_success'' = Some (PBool True)) = (map_of d ''api_error'' = Some PNone)))"

text \<open>Servers: one that knows no domain, one that is busy once, and three that misbehave.\<close>

definition not_found_response :: response where
  "not_found_response =
    \<lparr>status_code = 404, headers = [], body = NotJson ''Expecting value'', text_of = ''Not Found''\<rparr>"

definition not_found_server :: server where
  "not_found_server = (\<lambda>n domain. Response not_found_response)"

definition busy_response :: "(string \<times> string) list \<Rightarrow> response" where
  "busy_response hs =
    \<lparr>status_code = 429, headers = hs, body = NotJson ''Expecting value'',
     text_of = ''Too Many Requests''\<rparr>"

definition publisher :: pydict where
  "publisher = [(''publisher_id'', PNum 7), (''name'', PStr ''A''), (''avg_ads_in_view'', PNum (1 / 2))]"

definition ok_response :: "pyval \<Rightarrow> response" where
  "ok_response v = \<lparr>status_code = 200, headers = [], body = Json v, text_of = []\<rparr>"

definition busy_once_server :: server where
  "busy_once_server =
    (\<lambda>n domain. if n = 0 then Response (busy_response []) else Response (ok_response (PDict publisher)))"

definition dated_busy_server :: server where
  "dated_busy_server =
    (\<lambda>n domain. Response (busy_response [(''Retry-After'', ''Wed, 21 Oct 2015 07:28:00 GMT'')]))"

definition always_busy_server :: server where
  "always_busy_server =
    (\<lambda>n domain. Response (busy_response [(''retry-after'', ''Fri, 31 Dec 1999 23:59:59 GMT'')]))"

definition list_body_server :: server where
  "list_body_server = (\<lambda>n domain. Response (ok_response (PList [])))"

text \<open>
  The checkpoints of a complete run over the results \<open>rs\<close> with batch size \<open>B\<close>: batch
  \<open>j + 1\<close> holds the \<open>B\<close> results from position \<open>j * B\<close> on; \<open>batches B rs k\<close> are the
  first \<open>k\<close> of them.
\<close>

definition batches :: "nat \<Rightarrow> 'a list \<Rightarrow> nat \<Rightarrow> (nat \<times> 'a list) list" where
  "batches B rs k = map (\<lambda>j. (Suc j, take B (drop (j * B) rs))) [0..<k]"

text \<open>Samples for the collector.\<close>

definition three_rows :: "row list" where
  "three_rows =
    [\<lparr>row_domain = ''a.com'', row_network = Some ''Raptive''\<rparr>,
     \<lparr>row_domain = ''b.com'', row_network = Some ''Mediavine''\<rparr>,
     \<lparr>row_domain = ''c.com'', row_network = Some ''Aditude''\<rparr>]"

definition eleven_rows :: "row list" where
  "eleven_rows =
    map (\<lambda>k. \<lparr>row_domain = dec k @ ''.example.com'', row_network = Some ''Raptive''\<rparr>) [0..<11]"

text \<open>
  The domains of the trusted frame after cleaning, a stand-in for pandas' sampling that
  takes the first rows, an empty file system, and what a call of the sampler leaves
  behind.
\<close>

definition trusted_domains :: "string option list \<Rightarrow> string set" where
  "trusted_domains raptive_urls =
    set (map row_domain (normalize_rows (map (\<lambda>u. (u, Some ''Raptive'')) raptive_urls)))"

definition first_rows :: "row list \<Rightarrow> nat \<Rightarrow> row list" where
  "first_rows rows n = take n rows"

definition empty_fs :: filesystem where
  "empty_fs = \<lparr>dirs = {}, files = Map.empty\<rparr>"

definition fs_after :: "filesystem \<Rightarrow> exn + row list \<times> filesystem \<Rightarrow> filesystem" where
  "fs_after fs out = (case out of Inl e \<Rightarrow> fs | Inr (sample, fs') \<Rightarrow> fs')"

definition sample_of :: "exn + row list \<times> filesystem \<Rightarrow> row list" where
  "sample_of out = (case out of Inl e \<Rightarrow> [] | Inr (sample, fs') \<Rightarrow> sample)"

text \<open>
  The frames of the specification's scenario: \<^verbatim>\<open>a.com\<close> from the trusted source,
  \<^verbatim>\<open>b.com\<close> and \<^verbatim>\<open>a.com\<close> again from a competitor.
\<close>

definition scenario_raptive :: "string option list" where
  "scenario_raptive = [Some ''a.com'']"

definition scenario_competitor :: "(string option \<times> string option) list" where
  "scenario_competitor = [(Some ''b.com'', Some ''Mediavine''), (Some ''https://www.A.com/'', Some ''Mediavine'')]"

section \<open>The rate limiter: what it leaves alone, and a run across midnight\<close>

lemma reset_on_new_day_frame [simp]:
  "requests_sent (reset_on_new_day w) = requests_sent w"
  "saved (reset_on_new_day w) = saved w"
  "sleeps (reset_on_new_day w) = sleeps w"
  by (simp_all add: reset_on_new_day_def)

lemma wait_for_tomorrow_frame [simp]:
  "requests_sent (wait_for_tomorrow w) = requests_sent w"
  "saved (wait_for_tomorrow w) = saved w"
  "retry_after_sleeps (wait_for_tomorrow w) = retry_after_sleeps w"
  by (simp_all add: wait_for_tomorrow_def sleep_def Let_def retry_after_sleeps_def)

lemma evict_old_frame [simp]:
  "requests_sent (evict_old w) = requests_sent w"
  "saved (evict_old w) = saved w"
  "sleeps (evict_old w) = sleeps w"
  by (simp_all add: evict_old_def)

lemma wait_for_minute_window_frame [simp]:
  "requests_sent (wait_for_minute_window w) = requests_sent w"
  "saved (wait_for_minute_window w) = saved w"
  "retry_after_sleeps (wait_for_minute_window w) = retry_after_sleeps w"
  by (simp_all add: wait_for_minute_window_def sleep_def Let_def retry_after_sleeps_def)

lemma record_request_frame [simp]:
  "requests_sent (record_request w) = requests_sent w"
  "saved (record_request w) = saved w"
  "sleeps (record_request w) = sleeps w"
  by (simp_all add: record_request_def)

lemma retry_after_sleeps_cong: "sleeps w = sleeps w' \<Longrightarrow> retry_after_sleeps w = retry_after_sleeps w'"
  by (simp add: retry_after_sleeps_def)

lemma respect_rate_limits_frame [simp]:
  "requests_sent (respect_rate_limits w) = requests_sent w"
  "saved (respect_rate_limits w) = saved w"
  "retry_after_sleeps (respect_rate_limits w) = retry_after_sleeps w"
  by (simp_all add: respect_rate_limits_def
      retry_after_sleeps_cong [of "record_request _"] retry_after_sleeps_cong [of "evict_old _"]
      retry_after_sleeps_cong [of "reset_on_new_day _"])

lemma sleep_frame [simp]:
  "requests_sent (sleep site d w) = requests_sent w"
  "saved (sleep site d w) = saved w"
  "retry_after_sleeps (sleep Backoff d w) = retry_after_sleeps w"
  "retry_after_sleeps (sleep RetryAfter d w) = retry_after_sleeps w @ [d]"
  by (simp_all add: sleep_def retry_after_sleeps_def)

lemma retry_after_sleeps_sent [simp]:
  "retry_after_sleeps (w\<lparr>requests_sent := n\<rparr>) = retry_after_sleeps w"
  by (simp add: retry_after_sleeps_def)

text \<open>An acquisition on the same day, below both limits and with nothing to evict.\<close>

lemma respect_rate_limits_free:
  assumes "date_of (clock w) = current_day w" "requests_today w < REQUESTS_PER_DAY"
    "evict (clock w) (request_times w) = request_times w"
    "length (request_times w) < REQUESTS_PER_MINUTE"
  shows "respect_rate_limits w =
    w\<lparr>request_times := request_times w @ [clock w], requests_today := requests_today w + 1\<rparr>"
  using assms
  by (simp add: respect_rate_limits_def reset_on_new_day_def wait_for_tomorrow_def evict_old_def
      wait_for_minute_window_def record_request_def)

text \<open>The first acquisition of a new day forgets the minute window.\<close>

lemma respect_rate_limits_new_day:
  assumes "date_of (clock w) \<noteq> current_day w"
  shows "respect_rate_limits w =
    w\<lparr>current_day := date_of (clock w), requests_today := 1, request_times := [clock w]\<rparr>"
  using assms
  by (simp add: respect_rate_limits_def reset_on_new_day_def wait_for_tomorrow_def evict_old_def
      wait_for_minute_window_def record_request_def REQUESTS_PER_DAY_def REQUESTS_PER_MINUTE_def)

lemma replicate_numeral_Cons: "replicate (numeral k) x = x # replicate (pred_numeral k) x"
  by (simp add: numeral_eq_Suc)

lemma acquire_each_step:
  "acquire_each (gap # gaps) w =
    last (request_times (respect_rate_limits (w\<lparr>clock := clock w + gap\<rparr>)))
       # acquire_each gaps (respect_rate_limits (w\<lparr>clock := clock w + gap\<rparr>))"
  by (simp add: Let_def)

text \<open>
  C1 (the code breaks the claim). Sixty acquisitions, one a second from 23:59:15 on, all
  go through without a wait: the forty-sixth is the first of the new day and clears the
  minute window. All sixty timestamps lie in the 60 seconds up to 00:00:14, more than
  \<^verbatim>\<open>REQUESTS_PER_MINUTE\<close>.
\<close>

theorem acquisitions_across_midnight:
  "in_trailing_window 86414 (acquire_each (replicate 60 1) before_midnight) = 60
   \<and> REQUESTS_PER_MINUTE < in_trailing_window 86414 (acquire_each (replicate 60 1) before_midnight)"
  unfolding in_trailing_window_def before_midnight_def fresh_world_def
  by (simp add: acquire_each_step respect_rate_limits_free respect_rate_limits_new_day
      date_of_def REQUESTS_PER_MINUTE_def REQUESTS_PER_DAY_def replicate_numeral_Cons
      del: acquire_each.simps(2))

section \<open>One attempt of the fetch\<close>

lemma on_request_exception_frame:
  "requests_sent (snd (on_request_exception domain msg max_retries attempt w)) = requests_sent w"
  "saved (snd (on_request_exception domain msg max_retries attempt w)) = saved w"
  "retry_after_sleeps (snd (on_request_exception domain msg max_retries attempt w)) = retry_after_sleeps w"
  by (simp_all add: on_request_exception_def)

lemma attempt_once_sent:
  "requests_sent (snd (attempt_once jc srv domain max_retries attempt w)) = Suc (requests_sent w)"
  by (simp add: attempt_once_def Let_def on_request_exception_frame
      split: http_event.split body.split pyval.split option.split)

lemma attempt_once_saved:
  "saved (snd (attempt_once jc srv domain max_retries attempt w)) = saved w"
  by (simp add: attempt_once_def Let_def on_request_exception_frame
      split: http_event.split body.split pyval.split option.split)

lemma attempt_once_retry_sleeps:
  "length (retry_after_sleeps (snd (attempt_once jc srv domain max_retries attempt w)))
     \<le> Suc (length (retry_after_sleeps w))"
  by (simp add: attempt_once_def Let_def on_request_exception_frame
      split: http_event.split body.split pyval.split option.split)

lemma attempt_once_404:
  assumes "srv (requests_sent w) domain = Response r" "status_code r = 404"
  shows "attempt_once jc srv domain max_retries attempt w =
    (Done (failure_result domain ''Domain not found (404)'' (clock (respect_rate_limits w))),
     (respect_rate_limits w)\<lparr>requests_sent := Suc (requests_sent w)\<rparr>)"
  using assms by (simp add: attempt_once_def Let_def)

lemma attempt_once_429:
  assumes "srv (requests_sent w) domain = Response r" "status_code r = 429"
    "py_int (header_get (headers r) ''Retry-After'' ''60'') = Some wait" "0 \<le> wait"
  shows "attempt_once jc srv domain max_retries attempt w =
    (Retry, sleep RetryAfter wait ((respect_rate_limits w)\<lparr>requests_sent := Suc (requests_sent w)\<rparr>))"
  using assms by (simp add: attempt_once_def Let_def)

lemma attempt_once_429_unparsed:
  assumes "srv (requests_sent w) domain = Response r" "status_code r = 429"
    "py_int (header_get (headers r) ''Retry-After'' ''60'') = None"
  shows "attempt_once jc srv domain max_retries attempt w =
    (Raised ValueError, (respect_rate_limits w)\<lparr>requests_sent := Suc (requests_sent w)\<rparr>)"
  using assms by (simp add: attempt_once_def Let_def)

lemma attempt_once_200:
  assumes "srv (requests_sent w) domain = Response r" "status_code r = 200"
    "body r = Json (PDict data)"
  shows "attempt_once jc srv domain max_retries attempt w =
    (Done (metrics_result domain data (clock (respect_rate_limits w))),
     (respect_rate_limits w)\<lparr>requests_sent := Suc (requests_sent w)\<rparr>)"
  using assms by (simp add: attempt_once_def Let_def)

lemma attempt_once_200_list:
  assumes "srv (requests_sent w) domain = Response r" "status_code r = 200"
    "body r = Json (PList xs)"
  shows "attempt_once jc srv domain max_retries attempt w =
    (Raised AttributeError, (respect_rate_limits w)\<lparr>requests_sent := Suc (requests_sent w)\<rparr>)"
  using assms by (simp add: attempt_once_def Let_def)

section \<open>The fetch on the paths of the claims\<close>

declare fetch_attempts.simps [simp del]

lemma fetch_404:
  assumes "0 < max_retries" "srv (requests_sent w) domain = Response r" "status_code r = 404"
  shows "fetch_domain_metrics jc srv domain max_retries w =
    (Inr (failure_result domain ''Domain not found (404)'' (clock (respect_rate_limits w))),
     (respect_rate_limits w)\<lparr>requests_sent := Suc (requests_sent w)\<rparr>)"
  using assms
  by (simp add: fetch_domain_metrics_def fetch_attempts.simps [of _ _ _ _ 0] attempt_once_404)

lemma fetch_429_then_200:
  assumes "2 \<le> max_retries"
    "srv (requests_sent w) domain = Response r1" "status_code r1 = 429"
    "py_int (header_get (headers r1) ''Retry-After'' ''60'') = Some wait" "0 \<le> wait"
    "srv (Suc (requests_sent w)) domain = Response r2" "status_code r2 = 200"
    "body r2 = Json (PDict data)"
  defines "w1 \<equiv> sleep RetryAfter wait ((respect_rate_limits w)\<lparr>requests_sent := Suc (requests_sent w)\<rparr>)"
  shows "fetch_domain_metrics jc srv domain max_retries w =
    (Inr (metrics_result domain data (clock (respect_rate_limits w1))),
     (respect_rate_limits w1)\<lparr>requests_sent := Suc (Suc (requests_sent w))\<rparr>)"
proof -
  have sent: "requests_sent w1 = Suc (requests_sent w)"
    by (simp add: w1_def)
  have first: "attempt_once jc srv domain max_retries 0 w = (Retry, w1)"
    unfolding w1_def using assms(2-5) by (rule attempt_once_429)
  have second: "attempt_once jc srv domain max_retries (Suc 0) w1 =
      (Done (metrics_result domain data (clock (respect_rate_limits w1))),
       (respect_rate_limits w1)\<lparr>requests_sent := Suc (requests_sent w1)\<rparr>)"
    using assms(6-8) by (intro attempt_once_200) (simp_all add: sent)
  show ?thesis
    using assms(1) first second
    by (simp add: fetch_domain_metrics_def fetch_attempts.simps [of _ _ _ _ 0]
        fetch_attempts.simps [of _ _ _ _ "Suc 0"] sent)
qed


lemma fetch_429_unparsed:
  assumes "0 < max_retries" "srv (requests_sent w) domain = Response r" "status_code r = 429"
    "py_int (header_get (headers r) ''Retry-After'' ''60'') = None"
  shows "fetch_domain_metrics jc srv domain max_retries w =
    (Inl ValueError, (respect_rate_limits w)\<lparr>requests_sent := Suc (requests_sent w)\<rparr>)"
  using assms
  by (simp add: fetch_domain_metrics_def fetch_attempts.simps [of _ _ _ _ 0] attempt_once_429_unparsed)

lemma fetch_200_list:
  assumes "0 < max_retries" "srv (requests_sent w) domain = Response r" "status_code r = 200"
    "body r = Json (PList xs)"
  shows "fetch_domain_metrics jc srv domain max_retries w =
    (Inl AttributeError, (respect_rate_limits w)\<lparr>requests_sent := Suc (requests_sent w)\<rparr>)"
  using assms
  by (simp add: fetch_domain_metrics_def fetch_attempts.simps [of _ _ _ _ 0] attempt_once_200_list)

text \<open>
  Every attempt issues one request, so a fetch issues at most \<^verbatim>\<open>max_retries\<close> of them,
  whatever the server answers.
\<close>

lemma fetch_attempts_sent:
  "requests_sent (snd (fetch_attempts jc srv domain max_retries attempt w))
     \<le> requests_sent w + nat (max_retries - int attempt)"
proof (induction jc srv domain max_retries attempt w rule: fetch_attempts.induct)
  case (1 jc srv domain max_retries attempt w)
  show ?case
  proof (cases "int attempt < max_retries")
    case False
    then show ?thesis by (simp add: fetch_attempts.simps [of _ _ _ _ attempt])
  next
    case True
    obtain st w' where a: "attempt_once jc srv domain max_retries attempt w = (st, w')"
      by (cases "attempt_once jc srv domain max_retries attempt w")
    have sent: "requests_sent w' = Suc (requests_sent w)"
      using attempt_once_sent [of jc srv domain max_retries attempt w] a by simp
    show ?thesis
    proof (cases st)
      case Retry
      have "requests_sent (snd (fetch_attempts jc srv domain max_retries (Suc attempt) w'))
          \<le> requests_sent w' + nat (max_retries - int (Suc attempt))"
        using "1.IH" True a Retry by auto
      then show ?thesis
        using True a Retry sent by (simp add: fetch_attempts.simps [of _ _ _ _ attempt])
    next
      case (Done d)
      then show ?thesis
        using True a sent by (simp add: fetch_attempts.simps [of _ _ _ _ attempt])
    next
      case (Raised e)
      then show ?thesis
        using True a sent by (simp add: fetch_attempts.simps [of _ _ _ _ attempt])
    qed
  qed
qed

lemma fetch_requests_bounded:
  "requests_sent (snd (fetch_domain_metrics jc srv domain max_retries w))
     \<le> requests_sent w + nat max_retries"
  using fetch_attempts_sent [of jc srv domain max_retries 0 w]
  by (simp add: fetch_domain_metrics_def)

text \<open>
  Against a server that answers every request with a 429 the client can wait for, the
  fetch gives up after \<^verbatim>\<open>max_retries\<close> requests and as many waits.
\<close>

lemma fetch_attempts_always_429:
  assumes "\<forall>n. \<exists>r wait. srv n domain = Response r \<and> status_code r = 429
      \<and> py_int (header_get (headers r) ''Retry-After'' ''60'') = Some wait \<and> 0 \<le> wait"
  shows "\<exists>w'. fetch_attempts jc srv domain max_retries attempt w
        = (Inr (failure_result domain ''Max retries exceeded'' (clock w')), w')
      \<and> requests_sent w' = requests_sent w + nat (max_retries - int attempt)
      \<and> length (retry_after_sleeps w')
          = length (retry_after_sleeps w) + nat (max_retries - int attempt)"
  using assms
proof (induction jc srv domain max_retries attempt w rule: fetch_attempts.induct)
  case (1 jc srv domain max_retries attempt w)
  show ?case
  proof (cases "int attempt < max_retries")
    case False
    then show ?thesis
      by (simp add: fetch_attempts.simps [of _ _ _ _ attempt])
  next
    case True
    from "1.prems" obtain r wait where
      r: "srv (requests_sent w) domain = Response r" "status_code r = 429"
        "py_int (header_get (headers r) ''Retry-After'' ''60'') = Some wait" "0 \<le> wait"
      by blast
    define w1 where
      "w1 = sleep RetryAfter wait ((respect_rate_limits w)\<lparr>requests_sent := Suc (requests_sent w)\<rparr>)"
    have a: "attempt_once jc srv domain max_retries attempt w = (Retry, w1)"
      unfolding w1_def using r by (rule attempt_once_429)
    have w1: "requests_sent w1 = Suc (requests_sent w)"
      "retry_after_sleeps w1 = retry_after_sleeps w @ [wait]"
      by (simp_all add: w1_def)
    have "\<exists>w'. fetch_attempts jc srv domain max_retries (Suc attempt) w1
          = (Inr (failure_result domain ''Max retries exceeded'' (clock w')), w')
        \<and> requests_sent w' = requests_sent w1 + nat (max_retries - int (Suc attempt))
        \<and> length (retry_after_sleeps w')
          = length (retry_after_sleeps w1) + nat (max_retries - int (Suc attempt))"
      using "1.IH" True a "1.prems" by auto
    then obtain w' where
      "fetch_attempts jc srv domain max_retries (Suc attempt) w1
          = (Inr (failure_result domain ''Max retries exceeded'' (clock w')), w')"
      "requests_sent w' = requests_sent w1 + nat (max_retries - int (Suc attempt))"
      "length (retry_after_sleeps w')
          = length (retry_after_sleeps w1) + nat (max_retries - int (Suc attempt))"
      by blast
    then show ?thesis
      using True a w1 by (auto simp: fetch_attempts.simps [of _ _ _ _ attempt])
  qed
qed

lemma fetch_always_429:
  assumes "\<forall>n. \<exists>r wait. srv n domain = Response r \<and> status_code r = 429
      \<and> py_int (header_get (headers r) ''Retry-After'' ''60'') = Some wait \<and> 0 \<le> wait"
  shows "\<exists>w'. fetch_domain_metrics jc srv domain max_retries w
        = (Inr (failure_result domain ''Max retries exceeded'' (clock w')), w')
      \<and> requests_sent w' = requests_sent w + nat max_retries
      \<and> length (retry_after_sleeps w') = length (retry_after_sleeps w) + nat max_retries"
  using fetch_attempts_always_429 [of srv domain jc max_retries 0 w] assms
  by (simp add: fetch_domain_metrics_def)

section \<open>Parsing the headers of the concrete responses\<close>

lemmas string_eval =
  py_int_def strip_def is_space_def digit_string_def is_digit_def header_get_def lower_def
  lower_char_def has_header_def char_of_def bit_Suc_0_iff


lemma dated_retry_after:
  "py_int (header_get [(''Retry-After'', ''Wed, 21 Oct 2015 07:28:00 GMT'')] ''Retry-After'' ''60'') = None"
  by (simp add: string_eval)

lemma dated_retry_after':
  "py_int (header_get [(''retry-after'', ''Fri, 31 Dec 1999 23:59:59 GMT'')] ''Retry-After'' ''60'') = None"
  by (simp add: string_eval)

section \<open>The claims about the fetch\<close>

text \<open>
  C3 (amended). When the first request of a fetch with \<^verbatim>\<open>max_retries\<close> at least 1 is
  answered with HTTP 404, the fetch returns a dict with \<^verbatim>\<open>api_success\<close> false and
  \<^verbatim>\<open>api_error\<close> equal to the text \<^verbatim>\<open>Domain not found (404)\<close>, having issued exactly one
  request and slept for no \<^verbatim>\<open>Retry-After\<close>.
\<close>

theorem fetch_404_one_request:
  assumes "0 < max_retries" "srv (requests_sent w) domain = Response r" "status_code r = 404"
  shows "returned_field ''api_success'' (fetch_domain_metrics jc srv domain max_retries w) = Some (PBool False)
    \<and> returned_field ''api_error'' (fetch_domain_metrics jc srv domain max_retries w)
        = Some (PStr ''Domain not found (404)'')
    \<and> requests_sent (snd (fetch_domain_metrics jc srv domain max_retries w)) = requests_sent w + 1
    \<and> retry_after_sleeps (snd (fetch_domain_metrics jc srv domain max_retries w)) = retry_after_sleeps w"
  using fetch_404 [of max_retries srv w domain r jc] assms
  by (simp add: returned_field_def failure_result_def)

theorem fetch_404_one_request_witness:
  "returned_field ''api_success'' (fetch_domain_metrics True not_found_server ''a.com'' 3 (fresh_world 1000))
      = Some (PBool False)
    \<and> returned_field ''api_error'' (fetch_domain_metrics True not_found_server ''a.com'' 3 (fresh_world 1000))
        = Some (PStr ''Domain not found (404)'')
    \<and> requests_sent (snd (fetch_domain_metrics True not_found_server ''a.com'' 3 (fresh_world 1000))) = 1"
  using fetch_404_one_request [of 3 not_found_server "fresh_world 1000" "''a.com''" not_found_response True]
  by (simp add: not_found_server_def not_found_response_def fresh_world_def)

text \<open>
  C3 as stated fails: the error text of the dict returned for a 404 is not
  \<^verbatim>\<open>domain not found\<close>.
\<close>

theorem fetch_404_error_text_counterexample:
  "returned_field ''api_error'' (fetch_domain_metrics True not_found_server ''a.com'' 3 (fresh_world 1000))
      \<noteq> Some (PStr ''domain not found'')"
  using fetch_404 [of 3 not_found_server "fresh_world 1000" "''a.com''" not_found_response True]
  by (simp add: not_found_server_def not_found_response_def returned_field_def failure_result_def)




text \<open>
  C5 (the code breaks the claim). A server that answers every request with HTTP 429 and
  an HTTP date in \<^verbatim>\<open>Retry-After\<close>: with \<^verbatim>\<open>max_retries = 3\<close> the fetch returns no
  result, it raises \<^verbatim>\<open>ValueError\<close> out of the first attempt.
\<close>

theorem fetch_always_busy_raises:
  "fst (fetch_domain_metrics True always_busy_server ''a.com'' 3 (fresh_world 1000)) = Inl ValueError
    \<and> requests_sent (snd (fetch_domain_metrics True always_busy_server ''a.com'' 3 (fresh_world 1000))) = 1"
  using fetch_429_unparsed [of 3 always_busy_server "fresh_world 1000" "''a.com''"
      "busy_response [(''retry-after'', ''Fri, 31 Dec 1999 23:59:59 GMT'')]" True]
  by (simp add: always_busy_server_def busy_response_def dated_retry_after' fresh_world_def)

text \<open>
  C7 (the code breaks the claim). A 429 whose \<^verbatim>\<open>Retry-After\<close> is an HTTP date makes the
  fetch raise \<^verbatim>\<open>ValueError\<close>, and a 200 whose JSON body is a list makes it raise
  \<^verbatim>\<open>AttributeError\<close>; neither is captured into a result.
\<close>

theorem fetch_raises_out:
  "fst (fetch_domain_metrics jc dated_busy_server ''a.com'' 3 (fresh_world 1000)) = Inl ValueError
    \<and> fst (fetch_domain_metrics jc list_body_server ''a.com'' 3 (fresh_world 1000)) = Inl AttributeError"
  using fetch_429_unparsed [of 3 dated_busy_server "fresh_world 1000" "''a.com''"
      "busy_response [(''Retry-After'', ''Wed, 21 Oct 2015 07:28:00 GMT'')]" jc]
    fetch_200_list [of 3 list_body_server "fresh_world 1000" "''a.com''" "ok_response (PList [])" "[]" jc]
  by (simp add: dated_busy_server_def list_body_server_def busy_response_def ok_response_def
      dated_retry_after fresh_world_def)

section \<open>The shape of the returned dict\<close>

lemma result_shape_failure: "result_shape domain (failure_result domain err now)"
  by (simp add: result_shape_def failure_result_def)

lemma result_shape_metrics: "result_shape domain (metrics_result domain data now)"
  by (simp add: result_shape_def metrics_result_def METRIC_FIELDS_def)

lemma on_request_exception_shape:
  "on_request_exception domain msg max_retries attempt w = (Done d, w') \<Longrightarrow> result_shape domain d"
  by (auto simp: on_request_exception_def result_shape_failure split: if_splits)

lemma attempt_once_shape:
  assumes "attempt_once jc srv domain max_retries attempt w = (Done d, w')"
  shows "result_shape domain d"
proof (cases "srv (requests_sent (respect_rate_limits w)) domain")
  case (RequestException msg)
  with assms show ?thesis
    by (auto simp: attempt_once_def Let_def dest: on_request_exception_shape)
next
  case (Response r)
  consider "status_code r = 200" | "status_code r = 404" | "status_code r = 429"
    | "status_code r \<noteq> 200" "status_code r \<noteq> 404" "status_code r \<noteq> 429"
    by blast
  then show ?thesis
  proof cases
    case 1
    show ?thesis
    proof (cases "body r")
      case (NotJson msg)
      with assms Response 1 show ?thesis
        by (auto simp: attempt_once_def Let_def dest: on_request_exception_shape split: if_splits)
    next
      case (Json v)
      with assms Response 1 show ?thesis
        by (cases v) (auto simp: attempt_once_def Let_def result_shape_metrics)
    qed
  next
    case 2
    with assms Response show ?thesis
      by (auto simp: attempt_once_def Let_def result_shape_failure)
  next
    case 3
    with assms Response show ?thesis
      by (auto simp: attempt_once_def Let_def split: option.splits if_splits)
  next
    case 4
    with assms Response show ?thesis
      by (auto simp: attempt_once_def Let_def result_shape_failure)
  qed
qed

lemma fetch_attempts_shape:
  "fetch_attempts jc srv domain max_retries attempt w = (Inr d, w') \<Longrightarrow> result_shape domain d"
proof (induction jc srv domain max_retries attempt w rule: fetch_attempts.induct)
  case (1 jc srv domain max_retries attempt w)
  show ?case
  proof (cases "int attempt < max_retries")
    case False
    with "1.prems" show ?thesis
      by (auto simp: fetch_attempts.simps [of _ _ _ _ attempt] result_shape_failure)
  next
    case True
    obtain st w1 where a: "attempt_once jc srv domain max_retries attempt w = (st, w1)"
      by (cases "attempt_once jc srv domain max_retries attempt w")
    show ?thesis
    proof (cases st)
      case Retry
      with "1.prems" True a
      have "fetch_attempts jc srv domain max_retries (Suc attempt) w1 = (Inr d, w')"
        by (simp add: fetch_attempts.simps [of _ _ _ _ attempt])
      with "1.IH" True a Retry show ?thesis by auto
    next
      case (Done d0)
      with "1.prems" True a have "d0 = d"
        by (simp add: fetch_attempts.simps [of _ _ _ _ attempt])
      with a Done show ?thesis by (auto dest: attempt_once_shape)
    next
      case (Raised e)
      with "1.prems" True a show ?thesis
        by (simp add: fetch_attempts.simps [of _ _ _ _ attempt])
    qed
  qed
qed

text \<open>
  C10. Every dict that \<^verbatim>\<open>fetch_domain_metrics\<close> returns has the keys \<^verbatim>\<open>domain\<close>,
  \<^verbatim>\<open>api_success\<close>, \<^verbatim>\<open>api_error\<close> and \<^verbatim>\<open>fetched_at\<close>; \<^verbatim>\<open>api_success\<close> is a boolean, true
  exactly when \<^verbatim>\<open>api_error\<close> is \<^verbatim>\<open>None\<close>.
\<close>

theorem fetch_result_shape:
  assumes "fetch_domain_metrics jc srv domain max_retries w = (Inr d, w')"
  shows "map_of d ''domain'' = Some (PStr domain)
    \<and> (map_of d ''api_success'' = Some (PBool True) \<or> map_of d ''api_success'' = Some (PBool False))
    \<and> map_of d ''api_error'' \<noteq> None
    \<and> map_of d ''fetched_at'' \<noteq> None
    \<and> ((map_of d ''api_success'' = Some (PBool True)) = (map_of d ''api_error'' = Some PNone))"
  using fetch_attempts_shape [of jc srv domain max_retries 0 w d w'] assms
  by (auto simp: fetch_domain_metrics_def result_shape_def)

theorem fetch_result_shape_witness:
  "returned_field ''domain'' (fetch_domain_metrics True busy_once_server ''a.com'' 3 (fresh_world 1000))
      = Some (PStr ''a.com'')
   \<and> returned_field ''api_success'' (fetch_domain_metrics True busy_once_server ''a.com'' 3 (fresh_world 1000))
      = Some (PBool True)
   \<and> returned_field ''api_error'' (fetch_domain_metrics True busy_once_server ''a.com'' 3 (fresh_world 1000))
      = Some PNone"
proof -
  obtain d w' where
    run: "fetch_domain_metrics True busy_once_server ''a.com'' 3 (fresh_world 1000) = (Inr d, w')"
    using fetch_429_then_200 [of 3 busy_once_server "fresh_world 1000" "''a.com''"
        "busy_response []" 60 "ok_response (PDict publisher)" publisher True]
    by (simp add: busy_once_server_def busy_response_def ok_response_def fresh_world_def string_eval)
  have "map_of d ''api_success'' = Some (PBool True)"
    using run fetch_429_then_200 [of 3 busy_once_server "fresh_world 1000" "''a.com''"
        "busy_response []" 60 "ok_response (PDict publisher)" publisher True]
    by (auto simp: busy_once_server_def busy_response_def ok_response_def fresh_world_def
        string_eval metrics_result_def METRIC_FIELDS_def)
  then show ?thesis
    using fetch_result_shape [OF run] by (simp add: run returned_field_def)
qed

section \<open>Batches of a list\<close>

lemma batches_Suc: "batches B rs (Suc k) = batches B rs k @ [(Suc k, take B (drop (k * B) rs))]"
  by (simp add: batches_def)

lemma batches_append:
  "k * B \<le> length rs \<Longrightarrow> batches B (rs @ ys) k = batches B rs k"
proof (induction k)
  case 0
  show ?case by (simp add: batches_def)
next
  case (Suc k)
  then have "k * B + B \<le> length rs" by simp
  then have "take B (drop (k * B) (rs @ ys)) = take B (drop (k * B) rs)"
    by simp
  with Suc show ?case by (simp add: batches_Suc)
qed

lemma concat_batches: "concat (map snd (batches B rs k)) = take (k * B) rs"
proof (induction k)
  case 0
  show ?case by (simp add: batches_def)
next
  case (Suc k)
  have "take (k * B) rs @ take B (drop (k * B) rs) = take (k * B + B) rs"
    by (simp add: take_add)
  with Suc show ?case by (simp add: batches_Suc add.commute)
qed

lemma length_batches [simp]: "length (batches B rs k) = k"
  by (simp add: batches_def)

lemma fst_batches: "map fst (batches B rs k) = [1..<Suc k]"
  by (simp add: batches_def comp_def map_Suc_upt)

lemma ceil_div:
  fixes B n :: nat
  assumes "0 < B"
  shows "(n + B - 1) div B = (if n mod B = 0 then n div B else Suc (n div B))"
proof -
  define q r where "q = n div B" and "r = n mod B"
  have n: "n = q * B + r" and r: "r < B"
    using assms by (simp_all add: q_def r_def)
  show ?thesis
  proof (cases "r = 0")
    case True
    have "n + B - 1 = q * B + (B - 1)"
      using assms n True by simp
    then have "(n + B - 1) div B = q + (B - 1) div B"
      using assms by (metis div_mult_self3 less_numeral_extra(3))
    then show ?thesis
      using assms True by (simp add: q_def r_def)
  next
    case False
    have "n + B - 1 = Suc q * B + (r - 1)"
      using assms n False by simp
    then have "(n + B - 1) div B = Suc q + (r - 1) div B"
      using assms by (metis div_mult_self3 less_numeral_extra(3))
    then show ?thesis
      using assms False r by (simp add: q_def r_def)
  qed
qed

lemma ceil_div_covers:
  fixes B n :: nat
  assumes "0 < B"
  shows "n \<le> (n + B - 1) div B * B"
proof (cases "n mod B = 0")
  case True
  then have "(n + B - 1) div B = n div B"
    using assms ceil_div [of B n] by simp
  moreover have "n div B * B = n"
    using True by (metis add.right_neutral div_mult_mod_eq)
  ultimately show ?thesis by simp
next
  case False
  then have "(n + B - 1) div B = Suc (n div B)"
    using assms ceil_div [of B n] by simp
  moreover have "n = n div B * B + n mod B" by simp
  moreover have "n mod B < B" using assms by simp
  ultimately show ?thesis
    by (metis add_le_cancel_left less_imp_le_nat mult_Suc add.commute)
qed

section \<open>The collection loop\<close>

text \<open>A fetch writes no checkpoint.\<close>

lemma fetch_attempts_saved:
  "saved (snd (fetch_attempts jc srv domain max_retries attempt w)) = saved w"
proof (induction jc srv domain max_retries attempt w rule: fetch_attempts.induct)
  case (1 jc srv domain max_retries attempt w)
  show ?case
  proof (cases "int attempt < max_retries")
    case False
    then show ?thesis by (simp add: fetch_attempts.simps [of _ _ _ _ attempt])
  next
    case True
    obtain st w' where a: "attempt_once jc srv domain max_retries attempt w = (st, w')"
      by (cases "attempt_once jc srv domain max_retries attempt w")
    have kept: "saved w' = saved w"
      using attempt_once_saved [of jc srv domain max_retries attempt w] a by simp
    show ?thesis
    proof (cases st)
      case Retry
      have "saved (snd (fetch_attempts jc srv domain max_retries (Suc attempt) w')) = saved w'"
        using "1.IH" True a Retry by auto
      then show ?thesis
        using True a Retry kept by (simp add: fetch_attempts.simps [of _ _ _ _ attempt])
    next
      case (Done d)
      then show ?thesis
        using True a kept by (simp add: fetch_attempts.simps [of _ _ _ _ attempt])
    next
      case (Raised e)
      then show ?thesis
        using True a kept by (simp add: fetch_attempts.simps [of _ _ _ _ attempt])
    qed
  qed
qed

lemma fetch_saved:
  "fetch_domain_metrics jc srv domain max_retries w = (out, w') \<Longrightarrow> saved w' = saved w"
  using fetch_attempts_saved [of jc srv domain max_retries 0 w]
  by (simp add: fetch_domain_metrics_def)

text \<open>One batch more when the count reaches a multiple of the batch size.\<close>

lemma batches_snoc_full:
  assumes "0 < B" "Suc (length rs) mod B = 0"
  shows "batches B rs (length rs div B) @ [(Suc (length rs) div B, py_last B (rs @ [r]))]
    = batches B (rs @ [r]) (Suc (length rs) div B)"
proof -
  define k where "k = length rs div B"
  have k: "Suc (length rs) div B = Suc k"
    using assms by (simp add: k_def div_Suc)
  have len: "Suc (length rs) = Suc k * B"
    using assms k by (metis mod_0_imp_dvd dvd_div_mult_self)
  then have le: "k * B \<le> length rs" using assms(1) by simp
  have "py_last B (rs @ [r]) = drop (k * B) (rs @ [r])"
    using len assms(1) by (simp add: py_last_def)
  moreover have "take B (drop (k * B) (rs @ [r])) = drop (k * B) (rs @ [r])"
    using len by simp
  ultimately show ?thesis
    using batches_append [OF le, of "[r]"] by (simp add: k k_def [symmetric] batches_Suc)
qed

lemma batches_snoc_part:
  assumes "0 < B" "Suc (length rs) mod B \<noteq> 0"
  shows "batches B rs (length rs div B) = batches B (rs @ [r]) (Suc (length rs) div B)"
proof -
  have "Suc (length rs) div B = length rs div B"
    using assms by (simp add: div_Suc)
  moreover have "length rs div B * B \<le> length rs" by simp
  ultimately show ?thesis
    using batches_append [of "length rs div B" B rs "[r]"] by simp
qed

lemma batches_remaining:
  assumes "0 < B" "length rs mod B \<noteq> 0"
  shows "batches B rs (length rs div B) @ [(length rs div B + 1, py_last (length rs mod B) rs)]
    = batches B rs ((length rs + B - 1) div B)"
proof -
  have "length rs - length rs mod B = length rs div B * B"
    by (metis minus_mod_eq_div_mult)
  then have "py_last (length rs mod B) rs = drop (length rs div B * B) rs"
    by (simp add: py_last_def)
  moreover have "length (drop (length rs div B * B) rs) < B"
    using assms by (simp add: minus_mod_eq_div_mult [symmetric])
  then have "take B (drop (length rs div B * B) rs) = drop (length rs div B * B) rs"
    by simp
  moreover have c: "(length rs + B - 1) div B = Suc (length rs div B)"
    using assms ceil_div [of B "length rs"] by simp
  ultimately show ?thesis
    unfolding c by (simp add: batches_Suc)
qed


lemma map_of_tagged:
  "map_of (AList.update ''network'' v d) ''network'' = Some v"
  "map_of (AList.update ''network'' v d) ''domain'' = map_of d ''domain''"
  "map_of (AList.update ''network'' v d) ''api_success'' = map_of d ''api_success''"
  by (simp_all add: update_conv')

text \<open>
  The loop: what it has saved and collected when it ends without an exception.
\<close>

lemma collect_rows_invariant:
  assumes "0 < B"
    "collect_rows jc srv B i rows t w = (Inr t', w')"
    "i = Suc (length (all_results t))"
    "saved w = pre @ batches B (all_results t) (length (all_results t) div B)"
  shows "saved w' = pre @ batches B (all_results t') (length (all_results t') div B)
    \<and> length (all_results t') = length (all_results t) + length rows
    \<and> map (\<lambda>d. map_of d ''domain'') (all_results t')
        = map (\<lambda>d. map_of d ''domain'') (all_results t) @ map (\<lambda>r. Some (PStr (row_domain r))) rows
    \<and> map (\<lambda>d. map_of d ''network'') (all_results t')
        = map (\<lambda>d. map_of d ''network'') (all_results t) @ map (\<lambda>r. Some (network_value r)) rows"
  using assms(2-4)
proof (induction rows arbitrary: i t w)
  case Nil
  then show ?case by simp
next
  case (Cons r rows)
  obtain out w1 where f: "fetch_domain_metrics jc srv (row_domain r) 3 w = (out, w1)"
    by (cases "fetch_domain_metrics jc srv (row_domain r) 3 w")
  from Cons.prems(1) f obtain fetched where out: "out = Inr fetched"
    by (cases out) simp_all
  have saved1: "saved w1 = saved w"
    using f by (rule fetch_saved)
  have dom: "map_of fetched ''domain'' = Some (PStr (row_domain r))"
    using fetch_attempts_shape [of jc srv "row_domain r" 3 0 w fetched w1] f out
    by (simp add: fetch_domain_metrics_def result_shape_def)
  define result where "result = AList.update ''network'' (network_value r) fetched"
  define results where "results = all_results t @ [result]"
  define t1 where "t1 = (if truthy (dict_get result ''api_success'')
      then t\<lparr>all_results := results, successful_requests := successful_requests t + 1\<rparr>
      else t\<lparr>all_results := results, failed_requests := failed_requests t + 1\<rparr>)"
  define w2 where "w2 = (if i mod B = 0
      then save_incremental_progress (py_last B results) (i div B) w1 else w1)"
  have all1: "all_results t1 = results"
    by (simp add: t1_def)
  have rec: "collect_rows jc srv B (Suc i) rows t1 w2 = (Inr t', w')"
    using Cons.prems(1) f out assms(1)
    by (auto simp add: Let_def result_def results_def t1_def w2_def split: if_splits)
  have i: "i = Suc (length (all_results t))" by (rule Cons.prems(2))
  have saved2: "saved w2 = pre @ batches B (all_results t1) (length (all_results t1) div B)"
  proof (cases "i mod B = 0")
    case True
    then have "saved w2 = saved w @ [(i div B, py_last B results)]"
      by (simp add: w2_def save_incremental_progress_def saved1)
    then show ?thesis
      using batches_snoc_full [of B "all_results t" result] True assms(1) Cons.prems(3)
      by (simp add: all1 results_def i)
  next
    case False
    then have "saved w2 = saved w"
      by (simp add: w2_def saved1)
    then show ?thesis
      using batches_snoc_part [of B "all_results t" result] False assms(1) Cons.prems(3)
      by (simp add: all1 results_def i)
  qed
  have "Suc i = Suc (length (all_results t1))"
    by (simp add: all1 results_def i)
  from Cons.IH [OF rec this saved2] show ?case
    by (simp add: all1 results_def result_def dom map_of_tagged)
qed


lemma three_rows_facts: "three_rows \<noteq> []" "length three_rows = 3"
  by (simp_all add: three_rows_def)

lemma eleven_rows_facts: "eleven_rows \<noteq> []" "length eleven_rows = 11"
  by (simp_all add: eleven_rows_def)

lemma saved_fresh_world: "saved (fresh_world t) = []"
  by (simp add: fresh_world_def)

lemma batches_0 [simp]: "batches B rs 0 = []"
  by (simp add: batches_def)

lemma collect_all_data_run:
  assumes "0 < batch_size"
    "collect_all_data jc srv sample_df batch_size is_testing w = (Inr results, w')"
  defines "B \<equiv> if is_testing then min 10 batch_size else batch_size"
  shows "saved w' = saved w @ batches B results ((length sample_df + B - 1) div B)
    \<and> length results = length sample_df
    \<and> map (\<lambda>d. map_of d ''domain'') results = map (\<lambda>r. Some (PStr (row_domain r))) sample_df
    \<and> map (\<lambda>d. map_of d ''network'') results = map (\<lambda>r. Some (network_value r)) sample_df"
proof -
  have B: "0 < B" using assms(1) by (simp add: B_def)
  define t0 where "t0 = \<lparr>all_results = [], successful_requests = 0, failed_requests = 0\<rparr>"
  obtain out w1 where loop: "collect_rows jc srv B 1 sample_df t0 w = (out, w1)"
    by (cases "collect_rows jc srv B 1 sample_df t0 w")
  from assms(2) loop obtain t where out: "out = Inr t"
    by (cases out) (simp_all add: collect_all_data_def B_def [symmetric] t0_def [symmetric])
  have res: "results = all_results t" and n0: "length (all_results t) \<noteq> 0"
    and w': "w' = (if length (all_results t) mod B \<noteq> 0
        then save_incremental_progress (py_last (length (all_results t) mod B) (all_results t))
               (length (all_results t) div B + 1) w1
        else w1)"
    using assms(2) loop out B
    by (auto simp: collect_all_data_def B_def [symmetric] t0_def [symmetric] Let_def
        split: if_splits)
  have inv: "saved w1 = saved w @ batches B (all_results t) (length (all_results t) div B)
    \<and> length (all_results t) = length (all_results t0) + length sample_df
    \<and> map (\<lambda>d. map_of d ''domain'') (all_results t)
        = map (\<lambda>d. map_of d ''domain'') (all_results t0) @ map (\<lambda>r. Some (PStr (row_domain r))) sample_df
    \<and> map (\<lambda>d. map_of d ''network'') (all_results t)
        = map (\<lambda>d. map_of d ''network'') (all_results t0) @ map (\<lambda>r. Some (network_value r)) sample_df"
    using loop out by (intro collect_rows_invariant [OF B, of jc srv 1]) (simp_all add: t0_def)
  then have len: "length (all_results t) = length sample_df"
    by (simp add: t0_def)
  have "saved w' = saved w @ batches B (all_results t) ((length (all_results t) + B - 1) div B)"
  proof (cases "length (all_results t) mod B = 0")
    case True
    then show ?thesis
      using inv B ceil_div [of B "length (all_results t)"] by (simp add: w')
  next
    case False
    then show ?thesis
      using inv B batches_remaining [of B "all_results t"]
      by (simp add: w' save_incremental_progress_def)
  qed
  then show ?thesis
    using inv by (simp add: res len t0_def)
qed

lemma collect_rows_not_found:
  "0 < B \<Longrightarrow> \<exists>t' w'. collect_rows jc not_found_server B i rows t w = (Inr t', w')"
proof (induction rows arbitrary: i t w)
  case Nil
  show ?case by simp
next
  case (Cons r rows)
  have "fetch_domain_metrics jc not_found_server (row_domain r) 3 w =
    (Inr (failure_result (row_domain r) ''Domain not found (404)'' (clock (respect_rate_limits w))),
     (respect_rate_limits w)\<lparr>requests_sent := Suc (requests_sent w)\<rparr>)"
    by (rule fetch_404 [where r = not_found_response])
      (simp_all add: not_found_server_def not_found_response_def)
  then show ?case
    using Cons by (simp add: Let_def)
qed

lemma collect_all_data_not_found:
  assumes "0 < batch_size" "rows \<noteq> []"
  shows "\<exists>results w'. collect_all_data jc not_found_server rows batch_size is_testing w = (Inr results, w')"
proof -
  define B where "B = (if is_testing then min 10 batch_size else batch_size)"
  define t0 where "t0 = \<lparr>all_results = [], successful_requests = 0, failed_requests = 0\<rparr>"
  have B: "0 < B" using assms(1) by (simp add: B_def)
  obtain t w1 where loop: "collect_rows jc not_found_server B 1 rows t0 w = (Inr t, w1)"
    using collect_rows_not_found [OF B] by blast
  have "length (all_results t) = length (all_results t0) + length rows"
    using collect_rows_invariant [OF B loop, of "saved w"] by (simp add: t0_def)
  then have "length (all_results t) \<noteq> 0"
    using assms(2) by simp
  then show ?thesis
    using loop B
    by (simp add: collect_all_data_def B_def [symmetric] t0_def [symmetric] Let_def)
qed

text \<open>
  C2 (amended). Let \<open>B\<close> be the batch size in effect: the argument, or in testing mode
  the smaller of it and 10. For every non-empty sample of \<open>N\<close> domains and every batch
  size argument above 0, a call of \<^verbatim>\<open>collect_all_data\<close> that returns has written exactly
  \<open>ceil(N / B)\<close> checkpoints, numbered 1, 2, ... in this order; checkpoint \<open>j + 1\<close> holds
  the \<open>B\<close> results from position \<open>j * B\<close> on (fewer in the last), and the checkpoints
  concatenated in the order of their numbers are the returned results, one for every
  domain.
\<close>

theorem collect_checkpoints:
  assumes "0 < batch_size" "sample_df \<noteq> []"
    "collect_all_data jc srv sample_df batch_size is_testing w = (Inr results, w')"
  defines "B \<equiv> if is_testing then min 10 batch_size else batch_size"
  defines "k \<equiv> (length sample_df + B - 1) div B"
  defines "new \<equiv> drop (length (saved w)) (saved w')"
  shows "saved w' = saved w @ new
    \<and> length new = k
    \<and> map fst new = [1..<Suc k]
    \<and> (\<forall>j<k. snd (new ! j) = take B (drop (j * B) results))
    \<and> concat (map snd new) = results
    \<and> length results = length sample_df"
proof -
  have B: "0 < B" using assms(1) by (simp add: B_def)
  have run: "saved w' = saved w @ batches B results k" and len: "length results = length sample_df"
    using collect_all_data_run [OF assms(1,3)] by (simp_all add: B_def k_def)
  have new: "new = batches B results k"
    by (simp add: new_def run)
  have "length results \<le> k * B"
    unfolding k_def len using B by (rule ceil_div_covers)
  then have "concat (map snd new) = results"
    by (simp add: new concat_batches)
  moreover have "\<forall>j<k. snd (new ! j) = take B (drop (j * B) results)"
    by (simp add: new batches_def)
  ultimately show ?thesis
    by (simp add: run new fst_batches len)
qed

theorem collect_checkpoints_witness:
  "map fst (saved (snd (collect_all_data True not_found_server three_rows 2 False (fresh_world 1000))))
     = [1, 2]"
proof -
  obtain results w' where
    run: "collect_all_data True not_found_server three_rows 2 False (fresh_world 1000) = (Inr results, w')"
    using collect_all_data_not_found [of 2 three_rows True False "fresh_world 1000"]
    by (auto simp: three_rows_facts)
  have "[Suc 0..<3] = [1, 2]"
    by code_simp
  then show ?thesis
    using collect_checkpoints [OF _ _ run]
    by (simp add: run three_rows_facts saved_fresh_world)
qed

text \<open>
  C2 as stated fails in testing mode: with the batch size argument 100 and eleven
  domains the call writes two checkpoints (of ten rows and of one), not \<open>ceil(11 / 100)\<close>.
\<close>

theorem collect_testing_mode_counterexample:
  "length (saved (snd (collect_all_data True not_found_server eleven_rows 100 True (fresh_world 1000))))
     \<noteq> (length eleven_rows + 100 - 1) div 100"
proof -
  obtain results w' where
    run: "collect_all_data True not_found_server eleven_rows 100 True (fresh_world 1000) = (Inr results, w')"
    using collect_all_data_not_found [of 100 eleven_rows True True "fresh_world 1000"]
    by (auto simp: eleven_rows_facts)
  show ?thesis
    using collect_all_data_run [OF _ run]
    by (simp add: run eleven_rows_facts saved_fresh_world)
qed

text \<open>
  C6 (the code breaks the claim). On the empty sample \<^verbatim>\<open>collect_all_data\<close> returns no
  list: the summary divides by \<^verbatim>\<open>len(all_results)\<close> and raises \<^verbatim>\<open>ZeroDivisionError\<close>.
\<close>

theorem collect_empty_sample_raises:
  "fst (collect_all_data jc srv [] batch_size is_testing w) = Inl ZeroDivisionError"
  by (simp add: collect_all_data_def Let_def)

section \<open>The sampler\<close>

lemma dropna_network: "(d, n) \<in> set (dropna rows) \<Longrightarrow> n \<in> snd ` set rows"
  by (induction rows rule: dropna.induct) auto

lemma normalize_rows_network:
  "r \<in> set (normalize_rows raw) \<Longrightarrow> row_network r \<in> snd ` set raw"
  by (force simp: normalize_rows_def lower_strip_def split: prod.splits dest!: dropna_network)

lemma raptive_rows_network:
  "r \<in> set (normalize_rows (map (\<lambda>u. (u, Some ''Raptive'')) raptive_urls)) \<Longrightarrow>
    row_network r = Some ''Raptive''"
  by (drule normalize_rows_network) auto

lemma set_drop_duplicates: "set (drop_duplicates seen rows) \<subseteq> set rows"
  by (induction rows arbitrary: seen) auto

lemma set_sort_values [simp]: "set (sort_values rows) = set rows"
  by (simp add: sort_values_def)

lemma clean_trusted:
  assumes "r \<in> set (create_clean_domain_dataset raptive_urls competitor_rows)"
    "row_domain r \<in> trusted_domains raptive_urls"
  shows "row_network r = Some ''Raptive''"
proof -
  define raptive_df where "raptive_df = normalize_rows (map (\<lambda>u. (u, Some ''Raptive'')) raptive_urls)"
  define clean where "clean = filter (\<lambda>r. row_domain r \<notin> set (map row_domain raptive_df))
      (normalize_rows competitor_rows)"
  have "r \<in> set (drop_duplicates [] (raptive_df @ clean))"
    using assms(1) by (simp add: create_clean_domain_dataset_def Let_def raptive_df_def clean_def)
  then have "r \<in> set raptive_df \<or> r \<in> set clean"
    using set_drop_duplicates [of "[]" "raptive_df @ clean"] by auto
  moreover have "r \<notin> set clean"
    using assms(2) by (simp add: clean_def trusted_domains_def raptive_df_def)
  ultimately show ?thesis
    by (auto simp: raptive_df_def dest: raptive_rows_network)
qed

lemma network_sample_subset:
  assumes "\<forall>rows n. set (pick rows n) \<subseteq> set rows"
  shows "set (network_sample pick clean_df sample_size network) \<subseteq> set clean_df"
proof -
  have "set (pick (filter (\<lambda>r. network \<noteq> None \<and> row_network r = network) clean_df) sample_size)
      \<subseteq> set (filter (\<lambda>r. network \<noteq> None \<and> row_network r = network) clean_df)"
    using assms by blast
  then show ?thesis
    by (auto simp: network_sample_def Let_def)
qed

lemma sample_subset:
  assumes "\<forall>rows n. set (pick rows n) \<subseteq> set rows"
    "create_sample_dataset pick clean_df sample_size fs = Inr (sample, fs')"
  shows "set sample \<subseteq> set clean_df"
proof -
  have "sample = concat (map (network_sample pick clean_df sample_size)
      (unique (map row_network clean_df)))"
    using assms(2) by (auto simp: create_sample_dataset_def Let_def split: if_splits)
  then show ?thesis
    using network_sample_subset [OF assms(1)] by auto
qed

text \<open>The scenario, evaluated.\<close>

lemmas sampler_eval =
  create_clean_domain_dataset_def normalize_rows_def lower_strip_def strip_def lower_def
  lower_char_def is_space_def char_of_def bit_Suc_0_iff remove_protocol_def remove_www_def
  before_slash_def sort_values_def create_sample_dataset_def network_sample_def unique_def
  scenario_raptive_def scenario_competitor_def

lemma scenario_clean:
  "create_clean_domain_dataset scenario_raptive scenario_competitor =
    [\<lparr>row_domain = ''b.com'', row_network = Some ''Mediavine''\<rparr>,
     \<lparr>row_domain = ''a.com'', row_network = Some ''Raptive''\<rparr>]"
  by (simp add: sampler_eval Let_def)

lemma scenario_sample:
  "create_sample_dataset first_rows (create_clean_domain_dataset scenario_raptive scenario_competitor)
      500 empty_fs =
    Inr ([\<lparr>row_domain = ''b.com'', row_network = Some ''Mediavine''\<rparr>,
          \<lparr>row_domain = ''a.com'', row_network = Some ''Raptive''\<rparr>],
         \<lparr>dirs = {''pickles''},
          files = [''pickles/sample_domains.pkl'' \<mapsto>
            [\<lparr>row_domain = ''b.com'', row_network = Some ''Mediavine''\<rparr>,
             \<lparr>row_domain = ''a.com'', row_network = Some ''Raptive''\<rparr>]]\<rparr>)"
  unfolding scenario_clean
  by (simp add: create_sample_dataset_def network_sample_def unique_def Let_def empty_fs_def)

lemma scenario_trusted: "''a.com'' \<in> trusted_domains scenario_raptive"
  by (simp add: trusted_domains_def sampler_eval)

text \<open>
  C8. No row of the clean dataset, and no row of the sample drawn from it, carries a
  domain of the cleaned trusted frame with a network other than \<^verbatim>\<open>Raptive\<close>. The sampling
  of pandas is any function that returns rows of the frame it is given.
\<close>

theorem trusted_precedence:
  assumes "\<forall>rows n. set (pick rows n) \<subseteq> set rows"
    "create_sample_dataset pick (create_clean_domain_dataset raptive_urls competitor_rows)
       sample_size fs = Inr (sample, fs')"
  shows "(\<forall>r \<in> set (create_clean_domain_dataset raptive_urls competitor_rows).
            row_domain r \<in> trusted_domains raptive_urls \<longrightarrow> row_network r = Some ''Raptive'')
    \<and> (\<forall>r \<in> set sample.
            row_domain r \<in> trusted_domains raptive_urls \<longrightarrow> row_network r = Some ''Raptive'')"
  using sample_subset [OF assms] clean_trusted by blast

theorem trusted_precedence_witness:
  "map row_network
     (filter (\<lambda>r. row_domain r = ''a.com'')
       (sample_of (create_sample_dataset first_rows
          (create_clean_domain_dataset scenario_raptive scenario_competitor) 500 empty_fs)))
    = [Some ''Raptive'']"
  using trusted_precedence [of first_rows scenario_raptive scenario_competitor 500 empty_fs,
      OF _ scenario_sample] scenario_trusted
  by (simp add: scenario_sample sample_of_def first_rows_def)

text \<open>
  C9 (amended). A call of \<^verbatim>\<open>create_sample_dataset\<close> that returns has created the
  directory \<^verbatim>\<open>pickles\<close> and written the sample it returns to
  \<^verbatim>\<open>pickles/sample_domains.pkl\<close>; every other file is as before.
\<close>

theorem sampler_writes_pickle:
  assumes "create_sample_dataset pick clean_df sample_size fs = Inr (sample, fs')"
  shows "dirs fs' = insert ''pickles'' (dirs fs)
    \<and> files fs' = (files fs)(''pickles/sample_domains.pkl'' \<mapsto> sample)"
  using assms by (auto simp: create_sample_dataset_def Let_def split: if_splits)

theorem sampler_writes_pickle_witness:
  "files (fs_after empty_fs (create_sample_dataset first_rows
      (create_clean_domain_dataset scenario_raptive scenario_competitor) 500 empty_fs))
    = [''pickles/sample_domains.pkl'' \<mapsto>
        [\<lparr>row_domain = ''b.com'', row_network = Some ''Mediavine''\<rparr>,
         \<lparr>row_domain = ''a.com'', row_network = Some ''Raptive''\<rparr>]]"
  using sampler_writes_pickle [OF scenario_sample]
  unfolding scenario_sample fs_after_def by (simp add: empty_fs_def)

text \<open>
  C9 as stated fails: after the call on the scenario the file system is not the one
  before it.
\<close>

theorem sampler_side_effect_counterexample:
  "fs_after empty_fs (create_sample_dataset first_rows
      (create_clean_domain_dataset scenario_raptive scenario_competitor) 500 empty_fs) \<noteq> empty_fs"
  unfolding scenario_sample fs_after_def by (simp add: empty_fs_def)

end
